theory Spec2Isabelle
  imports Complex_Main "HOL-Library.List_Lexorder" "HOL-Library.Char_ord"
begin

section \<open>Data model\<close>

text \<open>
  The script \<^verbatim>\<open>complete_analysis.py\<close> is a straight-line batch job over one pandas
  data frame. A data frame is modelled as the list of its rows, a row as a record with
  one field per column. The record is polymorphic in the cell types, so that the same
  column names serve the raw frame (every cell may be missing, \<open>None\<close> standing for
  pandas' NaN) and the frame after \<^verbatim>\<open>dropna\<close> (no cell is missing any more).
  Fares and coordinates are read as real numbers, the passenger count as an integer:
  the comparisons of the cleaner are exact on them, the arithmetic on them is the exact
  arithmetic that the script's floating-point operations approximate.
\<close>

text \<open>
  Modelled from the spec: the column schema of the input file, which the script reads
  but does not declare. Section 4.1 lists a pickup timestamp, pickup and dropoff
  coordinates, a fare, a passenger count and an identifier column.
\<close>

datatype error = ParserError | ZeroDivisionError | KeyError

record ('s, 'r, 't, 'n) row =
  ident :: 's
  fare_amount :: 'r
  pickup_datetime :: 't
  pickup_longitude :: 'r
  pickup_latitude :: 'r
  dropoff_longitude :: 'r
  dropoff_latitude :: 'r
  passenger_count :: 'n

type_synonym raw_row = "(string option, real option, string option, int option) row"
type_synonym 't trip = "(string, real, 't, int) row"

text \<open>
  A parsed timestamp, as far as the script reads it: the calendar fields behind the
  accessors \<^verbatim>\<open>.dt.hour\<close>, \<^verbatim>\<open>.dt.day\<close>, \<^verbatim>\<open>.dt.month\<close>, \<^verbatim>\<open>.dt.year\<close>,
  \<^verbatim>\<open>.dt.dayofweek\<close> and \<^verbatim>\<open>.dt.day_name()\<close>.
\<close>

datatype dow = Mon | Tue | Wed | Thu | Fri | Sat | Sun

record timestamp =
  ts_year :: int
  ts_month :: int
  ts_day :: int
  ts_hour :: int
  ts_dow :: dow

fun day_name :: "dow \<Rightarrow> string" where
  "day_name Mon = ''Monday''"
| "day_name Tue = ''Tuesday''"
| "day_name Wed = ''Wednesday''"
| "day_name Thu = ''Thursday''"
| "day_name Fri = ''Friday''"
| "day_name Sat = ''Saturday''"
| "day_name Sun = ''Sunday''"

fun dayofweek :: "dow \<Rightarrow> int" where
  "dayofweek Mon = 0"
| "dayofweek Tue = 1"
| "dayofweek Wed = 2"
| "dayofweek Thu = 3"
| "dayofweek Fri = 4"
| "dayofweek Sat = 5"
| "dayofweek Sun = 6"

section \<open>Step 3: the cleaner\<close>

text \<open>
  \<^verbatim>\<open>df = df.dropna()\<close>: a row survives when none of its cells is missing; the
  surviving row carries the values of its cells.
\<close>

definition present :: "raw_row \<Rightarrow> string trip option" where
  "present r =
     Option.bind (ident r) (\<lambda>i.
     Option.bind (fare_amount r) (\<lambda>f.
     Option.bind (pickup_datetime r) (\<lambda>t.
     Option.bind (pickup_longitude r) (\<lambda>plon.
     Option.bind (pickup_latitude r) (\<lambda>plat.
     Option.bind (dropoff_longitude r) (\<lambda>dlon.
     Option.bind (dropoff_latitude r) (\<lambda>dlat.
     Option.bind (passenger_count r) (\<lambda>n.
       Some \<lparr> ident = i, fare_amount = f, pickup_datetime = t,
              pickup_longitude = plon, pickup_latitude = plat,
              dropoff_longitude = dlon, dropoff_latitude = dlat,
              passenger_count = n \<rparr>))))))))"

definition dropna :: "raw_row list \<Rightarrow> string trip list" where
  "dropna df = List.map_filter present df"

text \<open>
  \<^verbatim>\<open>df['pickup_datetime'] = pd.to_datetime(df['pickup_datetime'])\<close>: the parser is a
  parameter; the conversion of the column raises at the first string it rejects.
\<close>

definition with_datetime :: "'a trip \<Rightarrow> 'b \<Rightarrow> 'b trip" where
  "with_datetime r t =
     \<lparr> ident = ident r, fare_amount = fare_amount r, pickup_datetime = t,
       pickup_longitude = pickup_longitude r, pickup_latitude = pickup_latitude r,
       dropoff_longitude = dropoff_longitude r, dropoff_latitude = dropoff_latitude r,
       passenger_count = passenger_count r \<rparr>"

fun to_datetime ::
  "(string \<Rightarrow> timestamp option) \<Rightarrow> string trip list \<Rightarrow> error + timestamp trip list" where
  "to_datetime parse [] = Inr []"
| "to_datetime parse (r # rs) =
     (case parse (pickup_datetime r) of
        None \<Rightarrow> Inl ParserError
      | Some t \<Rightarrow>
          (case to_datetime parse rs of
             Inl e \<Rightarrow> Inl e
           | Inr rs' \<Rightarrow> Inr (with_datetime r t # rs')))"

text \<open>The four boolean-mask selections of lines 53 to 56, in the source's order.\<close>

definition cleaner ::
  "(string \<Rightarrow> timestamp option) \<Rightarrow> raw_row list \<Rightarrow> error + timestamp trip list" where
  "cleaner parse raw =
     (case to_datetime parse (dropna raw) of
        Inl e \<Rightarrow> Inl e
      | Inr df0 \<Rightarrow>
          let df1 = filter (\<lambda>r. fare_amount r > 0) df0;
              df2 = filter (\<lambda>r. fare_amount r < 200) df1;
              df3 = filter (\<lambda>r. passenger_count r > 0) df2;
              df4 = filter (\<lambda>r. passenger_count r \<le> 6) df3
          in Inr df4)"

section \<open>Step 4: feature engineering\<close>

text \<open>The anonymous function of line 77.\<close>

definition is_peak_of :: "int \<Rightarrow> string" where
  "is_peak_of x = (if (7 \<le> x \<and> x \<le> 9) \<or> (17 \<le> x \<and> x \<le> 19) then ''Peak'' else ''Off-Peak'')"

definition time_category :: "int \<Rightarrow> string" where
  "time_category hour =
     (if 5 \<le> hour \<and> hour < 12 then ''Morning''
      else if 12 \<le> hour \<and> hour < 17 then ''Afternoon''
      else if 17 \<le> hour \<and> hour < 21 then ''Evening''
      else ''Night'')"

record enhanced = "(string, real, timestamp, int) row" +
  hour :: int
  day :: int
  month :: int
  year :: int
  weekday :: string
  weekday_num :: int
  is_peak :: string
  time_category_col :: string
  distance :: real

definition distance_of :: "'t trip \<Rightarrow> real" where
  "distance_of r =
     sqrt ((dropoff_longitude r - pickup_longitude r)\<^sup>2 +
           (dropoff_latitude r - pickup_latitude r)\<^sup>2)"

definition enhance :: "timestamp trip \<Rightarrow> enhanced" where
  "enhance r =
     (let t = pickup_datetime r in
      row.extend r
        (enhanced.fields (ts_hour t) (ts_day t) (ts_month t) (ts_year t)
           (day_name (ts_dow t)) (dayofweek (ts_dow t))
           (is_peak_of (ts_hour t)) (time_category (ts_hour t)) (distance_of r)))"

definition feature_engineering :: "timestamp trip list \<Rightarrow> enhanced list" where
  "feature_engineering df = map enhance df"

section \<open>Step 5: descriptive statistics\<close>

text \<open>
  Reductions of a numeric column. An empty column has no mean and no quantile: pandas
  answers NaN, the model \<open>None\<close>. \<open>quantile\<close> is the default linear interpolation
  between the two order statistics around position \<open>q * (n - 1)\<close>; the script calls it
  with \<open>q = 0.25\<close> and \<open>q = 0.75\<close> only.
\<close>

definition mean :: "real list \<Rightarrow> real option" where
  "mean xs = (if xs = [] then None else Some (sum_list xs / real (length xs)))"

definition quantile :: "real \<Rightarrow> real list \<Rightarrow> real option" where
  "quantile q xs =
     (if xs = [] then None
      else
        let s = sort xs;
            pos = q * real (length xs - 1);
            lo = nat \<lfloor>pos\<rfloor>;
            hi = min (lo + 1) (length xs - 1)
        in Some (s ! lo + (s ! hi - s ! lo) * (pos - real lo)))"

text \<open>
  Lines 114 to 117. A comparison with NaN is false, so undefined quartiles select no row.
\<close>

definition outliers :: "enhanced list \<Rightarrow> enhanced list" where
  "outliers df =
     (case (quantile (1/4) (map fare_amount df), quantile (3/4) (map fare_amount df)) of
        (Some Q1, Some Q3) \<Rightarrow>
          let IQR = Q3 - Q1
          in filter (\<lambda>r. fare_amount r < Q1 - 1.5 * IQR \<or> fare_amount r > Q3 + 1.5 * IQR) df
      | _ \<Rightarrow> [])"

text \<open>Python's \<^verbatim>\<open>/\<close> on two integers raises when the divisor is zero.\<close>

definition truediv :: "int \<Rightarrow> int \<Rightarrow> error + real" where
  "truediv a b = (if b = 0 then Inl ZeroDivisionError else Inr (real_of_int a / real_of_int b))"

text \<open>\<^verbatim>\<open>len(outliers)/len(df)*100\<close>, on lines 118 and 349.\<close>

definition outlier_percentage :: "enhanced list \<Rightarrow> error + real" where
  "outlier_percentage df =
     (case truediv (int (length (outliers df))) (int (length df)) of
        Inl e \<Rightarrow> Inl e
      | Inr x \<Rightarrow> Inr (x * 100))"

section \<open>Step 6: the aggregates\<close>

text \<open>
  \<^verbatim>\<open>df.groupby(col)\<close>: one group per value observed in the column, the groups in
  ascending order of their key, each group holding its rows in frame order. A series
  is the list of its (label, value) pairs; a value that can be NaN is an \<open>option\<close>.
\<close>

definition groupby :: "('a \<Rightarrow> 'k::linorder) \<Rightarrow> 'a list \<Rightarrow> ('k \<times> 'a list) list" where
  "groupby col df = map (\<lambda>k. (k, filter (\<lambda>r. col r = k) df)) (sort (remdups (map col df)))"

definition group_size :: "('k \<times> 'a list) list \<Rightarrow> ('k \<times> nat) list" where
  "group_size gs = map (\<lambda>(k, g). (k, length g)) gs"

definition group_mean :: "('k \<times> enhanced list) list \<Rightarrow> ('k \<times> real option) list" where
  "group_mean gs = map (\<lambda>(k, g). (k, mean (map fare_amount g))) gs"


text \<open>
  \<^verbatim>\<open>.reindex(labels)\<close>: the series read at the given labels, in their order; a label
  the series does not have gets NaN.
\<close>

definition reindex :: "'k list \<Rightarrow> ('k \<times> 'v option) list \<Rightarrow> ('k \<times> 'v option) list" where
  "reindex labels s =
     map (\<lambda>l. (l, case map_of s l of None \<Rightarrow> None | Some v \<Rightarrow> v)) labels"

definition week :: "string list" where
  "week = [''Monday'', ''Tuesday'', ''Wednesday'', ''Thursday'', ''Friday'', ''Saturday'', ''Sunday'']"

definition hourly_fare :: "enhanced list \<Rightarrow> (int \<times> real option) list" where
  "hourly_fare df = group_mean (groupby hour df)"


definition weekday_fare :: "enhanced list \<Rightarrow> (string \<times> real option) list" where
  "weekday_fare df = reindex week (group_mean (groupby weekday df))"

definition weekday_rides :: "enhanced list \<Rightarrow> (string \<times> nat option) list" where
  "weekday_rides df = reindex week (map (\<lambda>(k, n). (k, Some n)) (group_size (groupby weekday df)))"

definition monthly_fare :: "enhanced list \<Rightarrow> (int \<times> real option) list" where
  "monthly_fare df = group_mean (groupby month df)"



section \<open>Step 7: the report\<close>

text \<open>
  \<^verbatim>\<open>Series.idxmax()\<close> and \<^verbatim>\<open>Series.max()\<close> skip NaN; \<open>idxmax\<close> answers the label of
  the first occurrence of the maximum. A series without any value has neither
  (\<open>None\<close>).
\<close>

fun valid_entries :: "('k \<times> 'v option) list \<Rightarrow> ('k \<times> 'v) list" where
  "valid_entries [] = []"
| "valid_entries ((k, None) # s) = valid_entries s"
| "valid_entries ((k, Some v) # s) = (k, v) # valid_entries s"

fun argmax_from :: "'k \<times> ('v::linorder) \<Rightarrow> ('k \<times> 'v) list \<Rightarrow> 'k \<times> 'v" where
  "argmax_from best [] = best"
| "argmax_from best (kv # kvs) = argmax_from (if snd kv > snd best then kv else best) kvs"

definition idxmax :: "('k \<times> ('v::linorder) option) list \<Rightarrow> 'k option" where
  "idxmax s = (case valid_entries s of [] \<Rightarrow> None | kv # kvs \<Rightarrow> Some (fst (argmax_from kv kvs)))"

definition series_max :: "('k \<times> ('v::linorder) option) list \<Rightarrow> 'v option" where
  "series_max s = (case valid_entries s of [] \<Rightarrow> None | kv # kvs \<Rightarrow> Some (snd (argmax_from kv kvs)))"

text \<open>
  \<^verbatim>\<open>Series.mode()\<close>: the values of highest frequency, in ascending order;
  \<^verbatim>\<open>mode()[0]\<close> reads the first of them and raises on an empty result.
\<close>

definition mode :: "('a::linorder) list \<Rightarrow> 'a list" where
  "mode xs =
     sort (filter (\<lambda>v. list_all (\<lambda>w. count_list xs w \<le> count_list xs v) xs) (remdups xs))"

definition mode0 :: "('a::linorder) list \<Rightarrow> error + 'a" where
  "mode0 xs = (case mode xs of [] \<Rightarrow> Inl KeyError | m # _ \<Rightarrow> Inr m)"

record report =
  total_records :: nat
  average_fare :: "real option"
  busiest_day :: "string option"
  busiest_day_rides :: "nat option"
  highest_fare_day :: "string option"
  highest_fare_day_avg :: "real option"
  most_common :: int
  outlier_records :: nat
  outlier_percent :: real

text \<open>
  The values interpolated into the report text, evaluated in the order of the
  f-string; the first one that raises aborts the report.
\<close>

definition make_report :: "enhanced list \<Rightarrow> error + report" where
  "make_report df =
     (case mode0 (map passenger_count df) of
        Inl e \<Rightarrow> Inl e
      | Inr m \<Rightarrow>
          (case outlier_percentage df of
             Inl e \<Rightarrow> Inl e
           | Inr pct \<Rightarrow>
               Inr \<lparr> total_records = length df,
                     average_fare = mean (map fare_amount df),
                     busiest_day = idxmax (weekday_rides df),
                     busiest_day_rides = series_max (weekday_rides df),
                     highest_fare_day = idxmax (weekday_fare df),
                     highest_fare_day_avg = series_max (weekday_fare df),
                     most_common = m,
                     outlier_records = length (outliers df),
                     outlier_percent = pct \<rparr>))"

section \<open>The whole run\<close>

text \<open>
  The files of a run are kept as the list of the paths written so far. Reading the
  input, drawing a chart and writing a file are the work of the file system and of the
  plotting library and are taken to succeed; the run stops at the first exception of
  the script's own computations and keeps the files written until then.
\<close>

definition to_csv :: "string \<Rightarrow> string list \<Rightarrow> string list" where
  "to_csv path files = files @ [path]"

definition savefig :: "string \<Rightarrow> string list \<Rightarrow> string list" where
  "savefig path files = files @ [path]"

definition write_text :: "string \<Rightarrow> string list \<Rightarrow> string list" where
  "write_text path files = files @ [path]"

definition visualizations :: "string list \<Rightarrow> string list" where
  "visualizations files =
     (let f1 = savefig ''powerbi/fare_distribution.png'' files;
          f2 = savefig ''powerbi/boxPlot.png'' f1;
          f3 = savefig ''powerbi/fare_hour.png'' f2;
          f4 = savefig ''powerbi/rides_hour.png'' f3;
          f5 = savefig ''powerbi/fare_week.png'' f4;
          f6 = savefig ''powerbi/rides_weekday.png'' f5;
          f7 = savefig ''powerbi/fare_monthly.png'' f6;
          f8 = savefig ''powerbi/peak_analysis.png'' f7;
          f9 = savefig ''powerbi/passenger_analysis.png'' f8;
          f10 = savefig ''powerbi/summary_analysis.png'' f9
      in f10)"

definition run :: "(string \<Rightarrow> timestamp option) \<Rightarrow> raw_row list \<Rightarrow> string list \<times> error option" where
  "run parse raw =
     (case cleaner parse raw of
        Inl e \<Rightarrow> ([], Some e)
      | Inr cleaned \<Rightarrow>
          let files1 = to_csv ''Data/cleaned/uber_cleaned.csv'' [];
              df = feature_engineering cleaned;
              files2 = to_csv ''Data/enhanced/uber_enhanced.csv'' files1
          in (case outlier_percentage df of
                Inl e \<Rightarrow> (files2, Some e)
              | Inr pct \<Rightarrow>
                  let files3 = visualizations files2
                  in (case make_report df of
                        Inl e \<Rightarrow> (files3, Some e)
                      | Inr rep \<Rightarrow> (write_text ''Documents/analysis_report.txt'' files3, None))))"

section \<open>Reference predicates\<close>


definition in_range :: "real \<Rightarrow> int \<Rightarrow> bool" where
  "in_range f n \<longleftrightarrow> 0 < f \<and> f < 200 \<and> 0 < n \<and> n \<le> 6"


text \<open>A raster image under the chart directory: a path \<^verbatim>\<open>powerbi/....png\<close>.\<close>

definition is_chart :: "string \<Rightarrow> bool" where
  "is_chart path \<longleftrightarrow> take 8 path = ''powerbi/'' \<and> drop (length path - 4) path = ''.png''"

section \<open>A sample input\<close>

text \<open>
  Nine raw rows over four pickup times: four valid rides, and one row each with a
  negative fare, a missing fare, a fare of 250, seven passengers and no passenger.
\<close>

definition example_parse :: "string \<Rightarrow> timestamp option" where
  "example_parse s =
     (if s = ''2015-05-04 08:15:00'' then
        Some \<lparr> ts_year = 2015, ts_month = 5, ts_day = 4, ts_hour = 8, ts_dow = Mon \<rparr>
      else if s = ''2015-05-05 19:30:00'' then
        Some \<lparr> ts_year = 2015, ts_month = 5, ts_day = 5, ts_hour = 19, ts_dow = Tue \<rparr>
      else if s = ''2015-05-11 13:00:00'' then
        Some \<lparr> ts_year = 2015, ts_month = 5, ts_day = 11, ts_hour = 13, ts_dow = Mon \<rparr>
      else if s = ''2015-05-12 23:45:00'' then
        Some \<lparr> ts_year = 2015, ts_month = 5, ts_day = 12, ts_hour = 23, ts_dow = Tue \<rparr>
      else None)"

definition example_row :: "real option \<Rightarrow> string \<Rightarrow> int option \<Rightarrow> raw_row" where
  "example_row fare stamp n =
     \<lparr> ident = Some ''ride'', fare_amount = fare, pickup_datetime = Some stamp,
       pickup_longitude = Some (-74), pickup_latitude = Some 40,
       dropoff_longitude = Some (-71), dropoff_latitude = Some 44,
       passenger_count = n \<rparr>"

definition example_raw :: "raw_row list" where
  "example_raw =
     [ example_row (Some 10) ''2015-05-04 08:15:00'' (Some 1),
       example_row (Some (-5)) ''2015-05-04 08:15:00'' (Some 1),
       example_row (Some 20) ''2015-05-05 19:30:00'' (Some 2),
       example_row None ''2015-05-05 19:30:00'' (Some 3),
       example_row (Some 30) ''2015-05-11 13:00:00'' (Some 1),
       example_row (Some 250) ''2015-05-11 13:00:00'' (Some 1),
       example_row (Some 12) ''2015-05-12 23:45:00'' (Some 2),
       example_row (Some 15) ''2015-05-12 23:45:00'' (Some 7),
       example_row (Some 15) ''2015-05-04 08:15:00'' (Some 0) ]"

definition example_trip :: "real \<Rightarrow> timestamp \<Rightarrow> int \<Rightarrow> timestamp trip" where
  "example_trip fare t n =
     \<lparr> ident = ''ride'', fare_amount = fare, pickup_datetime = t,
       pickup_longitude = -74, pickup_latitude = 40,
       dropoff_longitude = -71, dropoff_latitude = 44,
       passenger_count = n \<rparr>"

definition example_cleaned :: "timestamp trip list" where
  "example_cleaned =
     [ example_trip 10 \<lparr> ts_year = 2015, ts_month = 5, ts_day = 4, ts_hour = 8, ts_dow = Mon \<rparr> 1,
       example_trip 20 \<lparr> ts_year = 2015, ts_month = 5, ts_day = 5, ts_hour = 19, ts_dow = Tue \<rparr> 2,
       example_trip 30 \<lparr> ts_year = 2015, ts_month = 5, ts_day = 11, ts_hour = 13, ts_dow = Mon \<rparr> 1,
       example_trip 12 \<lparr> ts_year = 2015, ts_month = 5, ts_day = 12, ts_hour = 23, ts_dow = Tue \<rparr> 2 ]"

text \<open>The four valid rides with their derived columns.\<close>

definition example_enhanced :: "enhanced list" where
  "example_enhanced =
     [ row.extend (example_trip 10 \<lparr> ts_year = 2015, ts_month = 5, ts_day = 4, ts_hour = 8, ts_dow = Mon \<rparr> 1)
         (enhanced.fields 8 4 5 2015 ''Monday'' 0 ''Peak'' ''Morning'' 5),
       row.extend (example_trip 20 \<lparr> ts_year = 2015, ts_month = 5, ts_day = 5, ts_hour = 19, ts_dow = Tue \<rparr> 2)
         (enhanced.fields 19 5 5 2015 ''Tuesday'' 1 ''Peak'' ''Evening'' 5),
       row.extend (example_trip 30 \<lparr> ts_year = 2015, ts_month = 5, ts_day = 11, ts_hour = 13, ts_dow = Mon \<rparr> 1)
         (enhanced.fields 13 11 5 2015 ''Monday'' 0 ''Off-Peak'' ''Afternoon'' 5),
       row.extend (example_trip 12 \<lparr> ts_year = 2015, ts_month = 5, ts_day = 12, ts_hour = 23, ts_dow = Tue \<rparr> 2)
         (enhanced.fields 23 12 5 2015 ''Tuesday'' 1 ''Off-Peak'' ''Night'' 5) ]"


section \<open>The cleaner\<close>





lemma cleaner_Inr:
  "cleaner parse raw = Inr df \<longleftrightarrow>
     (\<exists>df0. to_datetime parse (dropna raw) = Inr df0 \<and>
            df = filter (\<lambda>r. in_range (fare_amount r) (passenger_count r)) df0)"
  by (auto simp: cleaner_def in_range_def Let_def split: sum.splits intro: filter_cong)

lemma to_datetime_returns:
  "(\<exists>ys. to_datetime parse xs = Inr ys) \<longleftrightarrow>
     (\<forall>r \<in> set xs. parse (pickup_datetime r) \<noteq> None)"
  by (induction xs) (auto split: option.splits sum.splits)

lemma cleaner_returns:
  "(\<exists>df. cleaner parse raw = Inr df) \<longleftrightarrow>
     (\<forall>r \<in> set (dropna raw). parse (pickup_datetime r) \<noteq> None)"
  by (simp add: cleaner_Inr to_datetime_returns)

lemma example_cleaner: "cleaner example_parse example_raw = Inr example_cleaned"
  by code_simp



section \<open>The derived columns\<close>

lemma enhance_simps:
  "hour (enhance r) = ts_hour (pickup_datetime r)"
  "weekday (enhance r) = day_name (ts_dow (pickup_datetime r))"
  "month (enhance r) = ts_month (pickup_datetime r)"
  "is_peak (enhance r) = is_peak_of (ts_hour (pickup_datetime r))"
  "time_category_col (enhance r) = time_category (ts_hour (pickup_datetime r))"
  "distance (enhance r) = distance_of r"
  "fare_amount (enhance r) = fare_amount r"
  "passenger_count (enhance r) = passenger_count r"
  by (cases r; simp add: enhance_def Let_def row.extend_def enhanced.fields_def)+

text \<open>
  C5. The peak flag of every enhanced record is \<open>Peak\<close> exactly when its hour is one of
  7, 8, 9, 17, 18, 19, and \<open>Off-Peak\<close> exactly when it is not; hours 9 and 19 are peak,
  hours 10 and 20 are not.
\<close>

theorem is_peak_iff:
  "(is_peak (enhance r) = ''Peak'') = (hour (enhance r) \<in> {7, 8, 9, 17, 18, 19}) \<and>
   (is_peak (enhance r) = ''Off-Peak'') = (hour (enhance r) \<notin> {7, 8, 9, 17, 18, 19}) \<and>
   is_peak_of 9 = ''Peak'' \<and> is_peak_of 10 = ''Off-Peak'' \<and>
   is_peak_of 19 = ''Peak'' \<and> is_peak_of 20 = ''Off-Peak''"
proof -
  have "(7 \<le> x \<and> x \<le> 9) \<or> (17 \<le> x \<and> x \<le> 19) \<longleftrightarrow> x \<in> {7, 8, 9, 17, 18, 19}" for x :: int
    by auto
  then show ?thesis
    by (simp add: enhance_simps is_peak_of_def)
qed

text \<open>
  C6. The time category of an hour is one of the four names; it is \<open>Morning\<close> exactly
  on [5, 12), \<open>Afternoon\<close> exactly on [12, 17), \<open>Evening\<close> exactly on [17, 21) and
  \<open>Night\<close> exactly elsewhere, so each hour lies in one bucket and one only. The
  column of an enhanced record is this function of its hour, and the 24 hours of a day
  fall into the buckets as listed.
\<close>

theorem time_category_partition:
  "time_category h \<in> {''Morning'', ''Afternoon'', ''Evening'', ''Night''} \<and>
   (time_category h = ''Morning'') = (5 \<le> h \<and> h < 12) \<and>
   (time_category h = ''Afternoon'') = (12 \<le> h \<and> h < 17) \<and>
   (time_category h = ''Evening'') = (17 \<le> h \<and> h < 21) \<and>
   (time_category h = ''Night'') = (h < 5 \<or> 21 \<le> h) \<and>
   time_category_col (enhance r) = time_category (hour (enhance r)) \<and>
   map time_category [0..23] =
     replicate 5 ''Night'' @ replicate 7 ''Morning'' @ replicate 5 ''Afternoon'' @
     replicate 4 ''Evening'' @ replicate 3 ''Night''"
proof -
  have "map time_category [0..23] =
     replicate 5 ''Night'' @ replicate 7 ''Morning'' @ replicate 5 ''Afternoon'' @
     replicate 4 ''Evening'' @ replicate 3 ''Night''"
    by code_simp
  then show ?thesis
    by (auto simp: enhance_simps time_category_def)
qed

text \<open>
  C10. An enhanced record flagged \<open>Peak\<close> has hour 7 to 9 and category \<open>Morning\<close>, or
  hour 17 to 19 and category \<open>Evening\<close>; its category is never \<open>Afternoon\<close> or
  \<open>Night\<close>.
\<close>

theorem peak_is_morning_or_evening:
  assumes "is_peak (enhance r) = ''Peak''"
  shows "((7 \<le> hour (enhance r) \<and> hour (enhance r) \<le> 9 \<and>
           time_category_col (enhance r) = ''Morning'') \<or>
          (17 \<le> hour (enhance r) \<and> hour (enhance r) \<le> 19 \<and>
           time_category_col (enhance r) = ''Evening'')) \<and>
         time_category_col (enhance r) \<noteq> ''Afternoon'' \<and>
         time_category_col (enhance r) \<noteq> ''Night''"
  using assms
  by (auto simp: enhance_simps is_peak_of_def time_category_def split: if_splits)

theorem peak_is_morning_or_evening_witness:
  "is_peak (enhance (hd example_cleaned)) = ''Peak'' \<and>
   hour (enhance (hd example_cleaned)) = 8 \<and>
   time_category_col (enhance (hd example_cleaned)) = ''Morning''"
proof -
  have h: "is_peak (enhance (hd example_cleaned)) = ''Peak''"
    by (simp add: enhance_simps example_cleaned_def example_trip_def is_peak_of_def)
  have "hour (enhance (hd example_cleaned)) = 8"
    by (simp add: enhance_simps example_cleaned_def example_trip_def)
  with h peak_is_morning_or_evening [OF h] show ?thesis by auto
qed

text \<open>
  The distance formula read in exact real arithmetic: non-negative, unchanged when
  pickup and dropoff are exchanged, and zero only for equal coordinates.
\<close>

lemma distance_of_exact_arithmetic:
  "0 \<le> distance_of r \<and>
   distance_of (r\<lparr> pickup_longitude := dropoff_longitude r,
                  pickup_latitude := dropoff_latitude r,
                  dropoff_longitude := pickup_longitude r,
                  dropoff_latitude := pickup_latitude r \<rparr>) = distance_of r \<and>
   (distance_of r = 0) =
     (pickup_longitude r = dropoff_longitude r \<and> pickup_latitude r = dropoff_latitude r)"
  by (auto simp: distance_of_def power2_commute sum_power2_eq_zero_iff)

section \<open>The aggregates\<close>


lemma map_of_tabulate:
  "map_of (map (\<lambda>k. (k, f k)) ks) k = (if k \<in> set ks then Some (f k) else None)"
  by (induction ks) auto

lemma groupby_keys: "map fst (groupby col df) = sort (remdups (map col df))"
  by (simp add: groupby_def comp_def)

lemma map_of_groupby:
  "map_of (groupby col df) k =
     (if k \<in> col ` set df then Some (filter (\<lambda>r. col r = k) df) else None)"
  by (simp add: groupby_def map_of_tabulate)







lemma weekday_rides_eq:
  "weekday_rides df =
     map (\<lambda>d. (d, if filter (\<lambda>r. weekday r = d) df = [] then None
                   else Some (length (filter (\<lambda>r. weekday r = d) df)))) week"
proof -
  have "map_of (map (\<lambda>(k, n). (k, Some n)) (group_size (groupby weekday df))) d =
        (if d \<in> weekday ` set df then Some (Some (length (filter (\<lambda>r. weekday r = d) df))) else None)" for d
    by (simp add: group_size_def groupby_def comp_def map_of_tabulate)
  then show ?thesis
    by (auto simp: weekday_rides_def reindex_def filter_empty_conv)
qed

lemma weekday_fare_eq:
  "weekday_fare df = map (\<lambda>d. (d, mean (map fare_amount (filter (\<lambda>r. weekday r = d) df)))) week"
proof -
  have "map_of (group_mean (groupby weekday df)) d =
        (if d \<in> weekday ` set df then Some (mean (map fare_amount (filter (\<lambda>r. weekday r = d) df))) else None)" for d
    by (simp add: group_mean_def groupby_def comp_def map_of_tabulate)
  then show ?thesis
    by (auto simp: weekday_fare_def reindex_def mean_def filter_empty_conv)
qed










lemma set_mode:
  "set (mode xs) = {v \<in> set xs. \<forall>w \<in> set xs. count_list xs w \<le> count_list xs v}"
  by (auto simp: mode_def list_all_iff)

lemma most_frequent_exists:
  assumes "xs \<noteq> []"
  shows "\<exists>v \<in> set xs. \<forall>w \<in> set xs. count_list xs w \<le> count_list xs v"
proof -
  let ?C = "count_list xs ` set xs"
  have "finite ?C" and "?C \<noteq> {}"
    using assms by auto
  then have "Max ?C \<in> ?C" and "\<forall>n \<in> ?C. n \<le> Max ?C"
    by (auto intro: Max_in)
  then show ?thesis by (metis (no_types, lifting) imageE imageI)
qed



lemma mode0_defined: "xs \<noteq> [] \<Longrightarrow> \<exists>m. mode0 xs = Inr m"
proof -
  assume "xs \<noteq> []"
  from most_frequent_exists [OF this] have "set (mode xs) \<noteq> {}"
    by (auto simp: set_mode)
  then show ?thesis
    by (cases "mode xs") (auto simp: mode0_def)
qed

lemma sqrt_25: "sqrt 25 = 5"
  by (rule real_sqrt_unique) simp_all

lemma example_features: "feature_engineering example_cleaned = example_enhanced"
  by (simp add: feature_engineering_def example_cleaned_def example_enhanced_def enhance_def
        example_trip_def distance_of_def is_peak_of_def time_category_def sqrt_25)

lemma example_weekdays: "map weekday example_enhanced = [''Monday'', ''Tuesday'', ''Monday'', ''Tuesday'']"
  by code_simp

lemma example_weekday_rides:
  "weekday_rides example_enhanced =
     [(''Monday'', Some 2), (''Tuesday'', Some 2), (''Wednesday'', None), (''Thursday'', None),
      (''Friday'', None), (''Saturday'', None), (''Sunday'', None)]"
  by code_simp

lemma example_weekday_fare:
  "weekday_fare example_enhanced =
     [(''Monday'', Some 20), (''Tuesday'', Some 16), (''Wednesday'', None), (''Thursday'', None),
      (''Friday'', None), (''Saturday'', None), (''Sunday'', None)]"
  by code_simp


text \<open>
  C4, as stated, fails: in the sample no ride falls on a Sunday, and the ride count
  reported for Sunday is NaN, not 0.
\<close>

theorem weekday_zero_count_counterexample:
  "map weekday (feature_engineering example_cleaned) =
     [''Monday'', ''Tuesday'', ''Monday'', ''Tuesday''] \<and>
   map_of (weekday_rides (feature_engineering example_cleaned)) ''Sunday'' = Some None \<and>
   map_of (weekday_rides (feature_engineering example_cleaned)) ''Sunday'' \<noteq> Some (Some 0)"
  by (simp add: example_features example_weekdays example_weekday_rides)

text \<open>
  C4, amended. Both weekday aggregates list the seven weekdays in the order Monday to
  Sunday, whatever the data. A weekday without rides is reported with an undefined (NaN)
  count and an undefined (NaN) mean; a weekday with rides is reported with the number
  of its rides and the mean of their fares.
\<close>

theorem weekday_aggregates_reindexed:
  assumes "d \<in> set week"
  shows "map fst (weekday_rides df) = week \<and> map fst (weekday_fare df) = week \<and>
         map_of (weekday_rides df) d =
           Some (if filter (\<lambda>r. weekday r = d) df = [] then None
                 else Some (length (filter (\<lambda>r. weekday r = d) df))) \<and>
         map_of (weekday_fare df) d =
           Some (mean (map fare_amount (filter (\<lambda>r. weekday r = d) df))) \<and>
         mean (map fare_amount (filter (\<lambda>r. weekday r = d) df)) =
           (if filter (\<lambda>r. weekday r = d) df = [] then None
            else Some (sum_list (map fare_amount (filter (\<lambda>r. weekday r = d) df)) /
                       real (length (filter (\<lambda>r. weekday r = d) df))))"
  using assms
  by (simp add: weekday_rides_eq weekday_fare_eq comp_def map_of_tabulate mean_def)

theorem weekday_aggregates_reindexed_witness:
  "''Sunday'' \<in> set week \<and>
   map fst (weekday_rides example_enhanced) = week \<and>
   map fst (weekday_fare example_enhanced) = week \<and>
   map_of (weekday_rides example_enhanced) ''Sunday'' = Some None \<and>
   map_of (weekday_fare example_enhanced) ''Sunday'' = Some None"
proof -
  have h: "''Sunday'' \<in> set week"
    by (simp add: week_def)
  have e: "filter (\<lambda>r. weekday r = ''Sunday'') example_enhanced = []"
    by code_simp
  from weekday_aggregates_reindexed [OF h, of example_enhanced] h show ?thesis
    by (simp add: e mean_def)
qed

section \<open>The report\<close>





section \<open>The whole run\<close>

lemma outlier_percentage_defined:
  "(outlier_percentage df = Inl ZeroDivisionError) = (df = []) \<and>
   (\<exists>p. outlier_percentage df = Inr p) = (df \<noteq> [])"
  by (auto simp: outlier_percentage_def truediv_def)

lemma make_report_defined:
  assumes "df \<noteq> []"
  shows "\<exists>rep. make_report df = Inr rep"
proof -
  from assms obtain m where "mode0 (map passenger_count df) = Inr m"
    using mode0_defined [of "map passenger_count df"] by auto
  moreover from assms obtain p where "outlier_percentage df = Inr p"
    using outlier_percentage_defined [of df] by auto
  ultimately show ?thesis
    by (simp add: make_report_def)
qed

lemma run_cases:
  "run parse raw =
     (case cleaner parse raw of
        Inl e \<Rightarrow> ([], Some e)
      | Inr [] \<Rightarrow>
          ([''Data/cleaned/uber_cleaned.csv'', ''Data/enhanced/uber_enhanced.csv''],
           Some ZeroDivisionError)
      | Inr (r # rs) \<Rightarrow>
          ([''Data/cleaned/uber_cleaned.csv'', ''Data/enhanced/uber_enhanced.csv'',
            ''powerbi/fare_distribution.png'', ''powerbi/boxPlot.png'',
            ''powerbi/fare_hour.png'', ''powerbi/rides_hour.png'',
            ''powerbi/fare_week.png'', ''powerbi/rides_weekday.png'',
            ''powerbi/fare_monthly.png'', ''powerbi/peak_analysis.png'',
            ''powerbi/passenger_analysis.png'', ''powerbi/summary_analysis.png'',
            ''Documents/analysis_report.txt''], None))"
proof (cases "cleaner parse raw")
  case (Inl e)
  then show ?thesis by (simp add: run_def)
next
  case (Inr cleaned)
  show ?thesis
  proof (cases cleaned)
    case Nil
    with Inr show ?thesis
      using outlier_percentage_defined [of "[]"]
      by (simp add: run_def feature_engineering_def to_csv_def)
  next
    case (Cons r rs)
    let ?df = "feature_engineering cleaned"
    from Cons have ne: "?df \<noteq> []"
      by (simp add: feature_engineering_def)
    then obtain p where p: "outlier_percentage ?df = Inr p"
      using outlier_percentage_defined [of ?df] by auto
    from ne obtain rep where rep: "make_report ?df = Inr rep"
      using make_report_defined by blast
    from Inr p rep have
      "run parse raw =
         (write_text ''Documents/analysis_report.txt''
            (visualizations
               (to_csv ''Data/enhanced/uber_enhanced.csv''
                  (to_csv ''Data/cleaned/uber_cleaned.csv'' []))), None)"
      by (simp add: run_def Let_def)
    with Inr Cons show ?thesis
      by (simp add: write_text_def visualizations_def savefig_def to_csv_def Let_def)
  qed
qed





lemma example_run:
  "run example_parse example_raw =
     ([''Data/cleaned/uber_cleaned.csv'', ''Data/enhanced/uber_enhanced.csv'',
       ''powerbi/fare_distribution.png'', ''powerbi/boxPlot.png'',
       ''powerbi/fare_hour.png'', ''powerbi/rides_hour.png'',
       ''powerbi/fare_week.png'', ''powerbi/rides_weekday.png'',
       ''powerbi/fare_monthly.png'', ''powerbi/peak_analysis.png'',
       ''powerbi/passenger_analysis.png'', ''powerbi/summary_analysis.png'',
       ''Documents/analysis_report.txt''], None)"
  by (simp add: run_cases example_cleaner example_cleaned_def)

lemma charts_of_completed_run:
  "filter is_chart
     [''Data/cleaned/uber_cleaned.csv'', ''Data/enhanced/uber_enhanced.csv'',
      ''powerbi/fare_distribution.png'', ''powerbi/boxPlot.png'',
      ''powerbi/fare_hour.png'', ''powerbi/rides_hour.png'',
      ''powerbi/fare_week.png'', ''powerbi/rides_weekday.png'',
      ''powerbi/fare_monthly.png'', ''powerbi/peak_analysis.png'',
      ''powerbi/passenger_analysis.png'', ''powerbi/summary_analysis.png'',
      ''Documents/analysis_report.txt''] =
     [''powerbi/fare_distribution.png'', ''powerbi/boxPlot.png'',
      ''powerbi/fare_hour.png'', ''powerbi/rides_hour.png'',
      ''powerbi/fare_week.png'', ''powerbi/rides_weekday.png'',
      ''powerbi/fare_monthly.png'', ''powerbi/peak_analysis.png'',
      ''powerbi/passenger_analysis.png'', ''powerbi/summary_analysis.png'']"
  by code_simp

text \<open>
  C3, as stated, fails: the run on the sample completes and has written ten image files
  under the chart directory, not eleven.
\<close>

theorem eleven_images_counterexample:
  "snd (run example_parse example_raw) = None \<and>
   length (filter is_chart (fst (run example_parse example_raw))) = 10 \<and>
   length (filter is_chart (fst (run example_parse example_raw))) \<noteq> 11"
  unfolding example_run fst_conv snd_conv charts_of_completed_run by simp

text \<open>
  C3, amended. A run that completes has written, in this order, the two delimited files
  (after cleaning, after feature engineering), exactly ten image files at fixed paths
  under the chart directory, and the text report; the thirteen paths are distinct.
\<close>

theorem completed_run_files:
  assumes "snd (run parse raw) = None"
  shows "fst (run parse raw) =
           [''Data/cleaned/uber_cleaned.csv'', ''Data/enhanced/uber_enhanced.csv''] @
           [''powerbi/fare_distribution.png'', ''powerbi/boxPlot.png'',
            ''powerbi/fare_hour.png'', ''powerbi/rides_hour.png'',
            ''powerbi/fare_week.png'', ''powerbi/rides_weekday.png'',
            ''powerbi/fare_monthly.png'', ''powerbi/peak_analysis.png'',
            ''powerbi/passenger_analysis.png'', ''powerbi/summary_analysis.png''] @
           [''Documents/analysis_report.txt''] \<and>
         filter is_chart (fst (run parse raw)) =
           [''powerbi/fare_distribution.png'', ''powerbi/boxPlot.png'',
            ''powerbi/fare_hour.png'', ''powerbi/rides_hour.png'',
            ''powerbi/fare_week.png'', ''powerbi/rides_weekday.png'',
            ''powerbi/fare_monthly.png'', ''powerbi/peak_analysis.png'',
            ''powerbi/passenger_analysis.png'', ''powerbi/summary_analysis.png''] \<and>
         length (filter is_chart (fst (run parse raw))) = 10 \<and>
         distinct (fst (run parse raw))"
proof -
  from assms have run: "run parse raw =
     ([''Data/cleaned/uber_cleaned.csv'', ''Data/enhanced/uber_enhanced.csv'',
       ''powerbi/fare_distribution.png'', ''powerbi/boxPlot.png'',
       ''powerbi/fare_hour.png'', ''powerbi/rides_hour.png'',
       ''powerbi/fare_week.png'', ''powerbi/rides_weekday.png'',
       ''powerbi/fare_monthly.png'', ''powerbi/peak_analysis.png'',
       ''powerbi/passenger_analysis.png'', ''powerbi/summary_analysis.png'',
       ''Documents/analysis_report.txt''], None)"
    by (auto simp: run_cases split: sum.splits list.splits)
  have "distinct
     [''Data/cleaned/uber_cleaned.csv'', ''Data/enhanced/uber_enhanced.csv'',
      ''powerbi/fare_distribution.png'', ''powerbi/boxPlot.png'',
      ''powerbi/fare_hour.png'', ''powerbi/rides_hour.png'',
      ''powerbi/fare_week.png'', ''powerbi/rides_weekday.png'',
      ''powerbi/fare_monthly.png'', ''powerbi/peak_analysis.png'',
      ''powerbi/passenger_analysis.png'', ''powerbi/summary_analysis.png'',
      ''Documents/analysis_report.txt'']"
    by code_simp
  then show ?thesis
    unfolding run fst_conv charts_of_completed_run by simp
qed

theorem completed_run_files_witness:
  "snd (run example_parse example_raw) = None \<and>
   length (fst (run example_parse example_raw)) = 13 \<and>
   length (filter is_chart (fst (run example_parse example_raw))) = 10"
proof -
  have h: "snd (run example_parse example_raw) = None"
    by (simp add: example_run)
  note t = completed_run_files [OF h]
  from t [THEN conjunct1] have "length (fst (run example_parse example_raw)) = 13"
    by simp
  moreover from t have "length (filter is_chart (fst (run example_parse example_raw))) = 10"
    by blast
  ultimately show ?thesis
    using h by blast
qed

end
